theory Spec2Isabelle
  imports Complex_Main "HOL-Library.Sublist"
begin

section \<open>Strings as the scripts use them\<close>

text \<open>
  A JavaScript string is kept as the UTF-8 bytes of its text, a \<open>string\<close>. The text
  is well-formed Unicode: command-line arguments and the literals of the scripts always
  are. Equality and concatenation of texts are equality and concatenation of their bytes.

  \<^verbatim>\<open>String.prototype.toLowerCase\<close> and \<^verbatim>\<open>toUpperCase\<close> follow the Unicode case
  tables of the runtime (the Kelvin sign becomes \<open>k\<close>, an accented capital its small
  letter). They are built-ins, not code of the repository, so they are parameters of the
  model: a \<open>runtime\<close> gives the two functions, and every statement below holds for
  whatever they map.
\<close>

record runtime =
  toLowerCase :: "string \<Rightarrow> string"
  toUpperCase :: "string \<Rightarrow> string"

text \<open>
  \<^verbatim>\<open>s.includes(t)\<close>: \<open>t\<close> occurs in \<open>s\<close> at some position. A well-formed text
  starts with the first byte of a character, and such a byte stands only at the start of
  a character, so an occurrence among the bytes is an occurrence among the UTF-16 code
  units and the other way round.
\<close>

fun includes_str :: "string \<Rightarrow> string \<Rightarrow> bool" where
  "includes_str [] t = (t = [])"
| "includes_str (c # s) t = (prefix t (c # s) \<or> includes_str s t)"

text \<open>\<^verbatim>\<open>xs.join(sep)\<close> on an array of strings.\<close>

fun join :: "string \<Rightarrow> string list \<Rightarrow> string" where
  "join sep [] = []"
| "join sep [x] = x"
| "join sep (x # y # ys) = x @ sep @ join sep (y # ys)"

text \<open>A number inside a template literal: its decimal digits.\<close>

definition digit :: "nat \<Rightarrow> char" where
  "digit d = char_of (48 + d)"

fun showNat :: "nat \<Rightarrow> string" where
  "showNat n = (if n < 10 then [digit n] else showNat (n div 10) @ [digit (n mod 10)])"

declare showNat.simps [simp del]

section \<open>The component catalog scraper (scripts/scrape-untitled-ui.js)\<close>

subsection \<open>The static taxonomy\<close>

text \<open>
  \<^verbatim>\<open>COMPONENT_CATEGORIES\<close> is an object literal; \<^verbatim>\<open>Object.entries\<close>,
  \<^verbatim>\<open>Object.keys\<close> and \<^verbatim>\<open>Object.values\<close> enumerate it in the order the keys are
  written (none of them is an array index), so the object is the list of its entries.
\<close>

definition COMPONENT_CATEGORIES :: "(string \<times> string list) list" where
  "COMPONENT_CATEGORIES =
    [(''buttons'', [''button'', ''button-group'', ''split-button'']),
     (''inputs'', [''input'', ''textarea'', ''select'', ''checkbox'', ''radio'', ''switch'',
        ''file-upload'']),
     (''avatars'', [''avatar'', ''avatar-group'']),
     (''navigation'', [''breadcrumb'', ''pagination'', ''tabs'', ''navbar'', ''sidebar'']),
     (''feedback'', [''alert'', ''toast'', ''progress'', ''spinner'', ''badge'']),
     (''overlays'', [''modal'', ''popover'', ''tooltip'', ''dropdown'', ''dialog'']),
     (''layout'', [''card'', ''container'', ''divider'', ''stack'']),
     (''data-display'', [''table'', ''list'', ''stat'', ''timeline'', ''carousel'']),
     (''forms'', [''form'', ''fieldset'', ''form-control'', ''validation''])]"

subsection \<open>Component records\<close>

record installation =
  cli :: string
  manual :: bool

text \<open>
  \<open>props\<close> is an object from prop name to type description, kept as the list of its
  entries in the order written.
\<close>

record componentData =
  name :: string
  description :: string
  category :: string
  installation :: installation
  variants :: "string list"
  props :: "(string \<times> string) list"
  examples :: "string list"
  dependencies :: "string list"
  documentation :: string
  lastUpdated :: string

definition baseUrl :: string where
  "baseUrl = ''https://www.untitledui.com/react/components''"

text \<open>
  The \<^verbatim>\<open>for ... of Object.entries(COMPONENT_CATEGORIES)\<close> loop of
  \<^verbatim>\<open>getCategoryForComponent\<close>, over the entries still to visit: the first category
  whose list includes the name is returned, \<open>misc\<close> when the entries run out.
\<close>

fun categoryLoop :: "(string \<times> string list) list \<Rightarrow> string \<Rightarrow> string" where
  "categoryLoop [] componentName = ''misc''"
| "categoryLoop ((cat, comps) # rest) componentName =
     (if componentName \<in> set comps then cat else categoryLoop rest componentName)"

definition getCategoryForComponent :: "string \<Rightarrow> string" where
  "getCategoryForComponent componentName = categoryLoop COMPONENT_CATEGORIES componentName"

text \<open>
  The number of bytes that hold the first UTF-16 code unit of a text, told by its first
  byte: a character of the Basic Multilingual Plane is one code unit and takes one, two
  or three bytes. A character beyond it (first byte \<open>0xF0\<close> or more) is a surrogate
  pair, of which the first code unit is half: \<open>None\<close>.
\<close>

definition firstUnitBytes :: "string \<Rightarrow> nat option" where
  "firstUnitBytes s =
     (case s of
        [] \<Rightarrow> Some 0
      | c # cs \<Rightarrow>
          (let b = (of_char c :: nat)
           in if b < 0x80 then Some 1
              else if b < 0xE0 then Some 2
              else if b < 0xF0 then Some 3
              else None))"

text \<open>
  \<^verbatim>\<open>componentName.charAt(0).toUpperCase() + componentName.slice(1)\<close>. When the text
  starts with a surrogate pair, \<^verbatim>\<open>charAt(0)\<close> is its high surrogate alone, which has
  no upper case, and the halves are joined again: the text comes back as it was.
\<close>

definition capitalize :: "runtime \<Rightarrow> string \<Rightarrow> string" where
  "capitalize rt s =
     (case firstUnitBytes s of
        Some n \<Rightarrow> toUpperCase rt (take n s) @ drop n s
      | None \<Rightarrow> s)"

text \<open>
  \<^verbatim>\<open>fetchComponentInfo\<close> reads the clock once (\<^verbatim>\<open>new Date().toISOString()\<close>); the
  reading is the parameter \<open>now\<close>. Nothing else of it depends on the outside world, and
  it has no failing path for a string argument.
\<close>

definition fetchComponentInfo :: "runtime \<Rightarrow> string \<Rightarrow> string \<Rightarrow> componentData" where
  "fetchComponentInfo rt now componentName =
     (let componentData =
        \<lparr> name = componentName,
          description = capitalize rt componentName @ '' component from Untitled UI'',
          category = getCategoryForComponent componentName,
          installation = \<lparr> cli = ''npx untitledui@latest add '' @ componentName, manual = True \<rparr>,
          variants = [],
          props = [],
          examples = [],
          dependencies = [''react'', ''react-aria'', ''tailwindcss''],
          documentation = baseUrl @ ''/'' @ componentName,
          lastUpdated = now \<rparr>
      in if componentName = ''button'' then
           componentData
             \<lparr> variants := [''primary'', ''secondary'', ''tertiary'', ''destructive'', ''link''],
               props := [(''color'', ''string''), (''size'', ''sm | md | lg | xl''),
                         (''iconLeading'', ''ReactNode''), (''iconTrailing'', ''ReactNode''),
                         (''isLoading'', ''boolean''), (''isDisabled'', ''boolean'')] \<rparr>
         else if componentName = ''input'' then
           componentData
             \<lparr> variants := [''default'', ''invalid'', ''disabled'', ''with-icon'', ''with-dropdown''],
               props := [(''size'', ''sm | md | lg''), (''isInvalid'', ''boolean''),
                         (''isDisabled'', ''boolean''), (''iconLeading'', ''ReactNode''),
                         (''iconTrailing'', ''ReactNode'')] \<rparr>
         else componentData)"

subsection \<open>The scraper's state and its environment\<close>

text \<open>
  \<^verbatim>\<open>this.components\<close> is a \<^verbatim>\<open>Map\<close>: it keeps its keys in insertion order, and
  \<^verbatim>\<open>set\<close> on a key already present replaces the value where it stands.
\<close>

fun map_set :: "('k \<times> 'v) list \<Rightarrow> 'k \<Rightarrow> 'v \<Rightarrow> ('k \<times> 'v) list" where
  "map_set [] k v = [(k, v)]"
| "map_set ((k', v') # m) k v = (if k' = k then (k, v) # m else (k', v') # map_set m k v)"

definition map_has :: "('k \<times> 'v) list \<Rightarrow> 'k \<Rightarrow> bool" where
  "map_has m k = (map_of m k \<noteq> None)"

text \<open>\<^verbatim>\<open>Set.prototype.add\<close>: a value already in the set is not added again.\<close>

definition set_add :: "'a list \<Rightarrow> 'a \<Rightarrow> 'a list" where
  "set_add xs x = (if x \<in> set xs then xs else xs @ [x])"

record metadata =
  source :: string
  md_url :: string
  scrapedAt :: string
  totalComponents :: nat
  md_categories :: "string list"

text \<open>
  The catalog object. \<open>metadata.url\<close> and \<open>metadata.categories\<close> are the fields
  \<open>md_url\<close> and \<open>md_categories\<close>. \<open>categories\<close> and \<open>components\<close> are objects
  keyed by strings that are not array indices, so they are the lists of their entries in
  insertion order.
\<close>

record catalog =
  metadata :: metadata
  categories :: "(string \<times> componentData list) list"
  components :: "(string \<times> componentData) list"

text \<open>
  What a written file holds. \<^verbatim>\<open>JSON.stringify(x, null, 2)\<close> is a function of the
  value \<open>x\<close>, so a JSON file is kept as the value it serialises; \<open>SearchUtility\<close>
  stands for the fixed text of \<^verbatim>\<open>search.ts\<close>.
\<close>

datatype content =
  JsonComponent componentData
| JsonCatalog catalog
| Text string
| SearchUtility

text \<open>
  The outside world of one run: \<open>clock n\<close> is the \<open>n\<close>-th reading of
  \<^verbatim>\<open>new Date().toISOString()\<close>, \<open>writable p\<close> tells whether \<^verbatim>\<open>fs.mkdir\<close> or
  \<^verbatim>\<open>fs.writeFile\<close> on the path \<open>p\<close> succeeds (otherwise it throws),
  \<open>outputDir\<close> is the directory \<^verbatim>\<open>path.join(__dirname, '..', 'src', 'lib', 'untitled-ui')\<close>,
  and \<open>js\<close> is the runtime's case functions.
\<close>

record env =
  clock :: "nat \<Rightarrow> string"
  writable :: "string \<Rightarrow> bool"
  outputDir :: string
  js :: runtime

record scraper =
  this_components :: "(string \<times> componentData) list"
  ticks :: nat
  files :: "(string \<times> content) list"

text \<open>
  A file system call that throws: the error, and the state at the throw (what was
  written before stays written).
\<close>

datatype error = FsError string

type_synonym failure = "error \<times> scraper"

definition newScraper :: scraper where
  "newScraper = \<lparr> this_components = [], ticks = 0, files = [] \<rparr>"

definition readClock :: "env \<Rightarrow> scraper \<Rightarrow> string \<times> scraper" where
  "readClock e s = (clock e (ticks s), s\<lparr> ticks := Suc (ticks s) \<rparr>)"

definition writeFile :: "env \<Rightarrow> string \<Rightarrow> content \<Rightarrow> scraper \<Rightarrow> failure + scraper" where
  "writeFile e filePath c s =
     (if writable e filePath then Inr (s\<lparr> files := map_set (files s) filePath c \<rparr>)
      else Inl (FsError filePath, s))"

definition init :: "env \<Rightarrow> scraper \<Rightarrow> failure + scraper" where
  "init e s =
     (if \<not> writable e (outputDir e) then Inl (FsError (outputDir e), s)
      else if \<not> writable e (outputDir e @ ''/components'')
        then Inl (FsError (outputDir e @ ''/components''), s)
      else Inr s)"

definition saveComponentFile ::
  "env \<Rightarrow> string \<Rightarrow> componentData \<Rightarrow> scraper \<Rightarrow> failure + scraper" where
  "saveComponentFile e componentName componentData s =
     (let filePath = outputDir e @ ''/components/'' @ componentName @ ''.json''
      in writeFile e filePath (JsonComponent componentData) s)"

text \<open>
  \<^verbatim>\<open>allComponents\<close>: the names of all categories, added to a \<^verbatim>\<open>Set\<close> in taxonomy
  order.
\<close>

definition allComponents :: "string list" where
  "allComponents = foldl (\<lambda>acc comps. foldl set_add acc comps) [] (map snd COMPONENT_CATEGORIES)"

text \<open>
  The \<^verbatim>\<open>for (const componentName of allComponents)\<close> loop. The record is stored
  before the file is saved, so a failed save (caught, logged, and the loop goes on)
  leaves the record in the store. The scraper's console output and the 100 ms pause
  are not modelled.
\<close>

fun scrapeLoop :: "env \<Rightarrow> string list \<Rightarrow> scraper \<Rightarrow> scraper" where
  "scrapeLoop e [] s = s"
| "scrapeLoop e (componentName # rest) s =
     (let (now, s1) = readClock e s;
          componentData = fetchComponentInfo (js e) now componentName;
          s2 = s1\<lparr> this_components := map_set (this_components s1) componentName componentData \<rparr>
      in case saveComponentFile e componentName componentData s2 of
           Inr s3 \<Rightarrow> scrapeLoop e rest s3
         | Inl (err, s3) \<Rightarrow> scrapeLoop e rest s3)"

definition scrapeAllComponents :: "env \<Rightarrow> scraper \<Rightarrow> scraper" where
  "scrapeAllComponents e s = scrapeLoop e allComponents s"

subsection \<open>Generated artifacts\<close>

definition nl :: string where
  "nl = [CHR 0x0A]"

definition sq :: string where
  "sq = [CHR 0x27]"

definition dq :: string where
  "dq = [CHR 0x22]"

definition backticks3 :: string where
  "backticks3 = [CHR 0x60, CHR 0x60, CHR 0x60]"

definition unlines :: "string list \<Rightarrow> string" where
  "unlines ls = concat (map (\<lambda>l. l @ nl) ls)"

definition quoted :: "string \<Rightarrow> string" where
  "quoted x = sq @ x @ sq"

text \<open>
  \<^verbatim>\<open>Array.from(new Set(Object.values(COMPONENT_CATEGORIES).flat()))\<close>: the names in
  order of first occurrence.
\<close>

definition taxonomyNames :: "string list" where
  "taxonomyNames = foldl set_add [] (concat (map snd COMPONENT_CATEGORIES))"

text \<open>
  \<^verbatim>\<open>generateTypeDefinitions(catalog)\<close> builds the text of \<^verbatim>\<open>types.ts\<close>: the
  fixed lines of the interface declaration, then the two type declarations. The catalog
  it is given is not read.
\<close>

definition interfaceLines :: "string list" where
  "interfaceLines =
     [''// Auto-generated Untitled UI component types'',
      ''export interface UntitledUIComponent {'',
      ''  name: string;'',
      ''  description: string;'',
      ''  category: string;'',
      ''  installation: { cli: string; manual: boolean; };'',
      ''  variants: string[];'',
      ''  props: Record<string, string>;'',
      ''  examples: string[];'',
      ''  dependencies: string[];'',
      ''  documentation: string;'',
      ''  lastUpdated: string;'',
      ''}'',
      []]"

definition typesText :: "catalog \<Rightarrow> string" where
  "typesText catalog =
     unlines (interfaceLines @
       [''export type ComponentCategory = ''
          @ join '' | '' (map quoted (map fst COMPONENT_CATEGORIES)) @ '';'',
        ''export type ComponentName = '' @ join '' | '' (map quoted taxonomyNames) @ '';''])"

definition generateTypeDefinitions :: "env \<Rightarrow> catalog \<Rightarrow> scraper \<Rightarrow> failure + scraper" where
  "generateTypeDefinitions e catalog s =
     writeFile e (outputDir e @ ''/types.ts'') (Text (typesText catalog)) s"

definition guideText :: "runtime \<Rightarrow> catalog \<Rightarrow> string" where
  "guideText rt catalog =
     ''# Untitled UI Components Catalog'' @ nl @ nl
     @ ''This catalog contains '' @ showNat (totalComponents (metadata catalog))
     @ '' components from [Untitled UI]('' @ md_url (metadata catalog) @ '').'' @ nl @ nl
     @ ''## Installation'' @ nl
     @ backticks3 @ ''bash'' @ nl
     @ ''npx untitledui@latest add [component-name]'' @ nl
     @ backticks3 @ nl @ nl
     @ ''## Categories'' @ nl
     @ concat (map (\<lambda>(cat, comps).
         nl @ ''### '' @ capitalize rt cat @ nl
         @ join nl (map (\<lambda>comp. ''- **'' @ name comp @ ''**: '' @ description comp) comps) @ nl)
         (categories catalog))
     @ nl @ nl
     @ ''Generated: '' @ scrapedAt (metadata catalog) @ nl"

definition generateUsageGuide :: "env \<Rightarrow> catalog \<Rightarrow> scraper \<Rightarrow> failure + scraper" where
  "generateUsageGuide e catalog s =
     writeFile e (outputDir e @ ''/README.md'') (Text (guideText (js e) catalog)) s"

definition generateSearchUtility :: "env \<Rightarrow> scraper \<Rightarrow> failure + scraper" where
  "generateSearchUtility e s = writeFile e (outputDir e @ ''/search.ts'') SearchUtility s"

text \<open>
  The catalog object assembled at the start of \<^verbatim>\<open>generateCatalog\<close>. Each category
  list is the taxonomy's list filtered down to the names the store has, each mapped to
  \<^verbatim>\<open>{ name, ...this.components.get(name) }\<close>; the spread copies every field of the
  stored record, its own \<open>name\<close> over the one written first, so the embedded object is
  the stored record.
\<close>

fun categoriesLoop ::
  "(string \<times> string list) list \<Rightarrow> (string \<times> componentData) list
     \<Rightarrow> (string \<times> componentData list) list \<Rightarrow> (string \<times> componentData list) list" where
  "categoriesLoop [] store acc = acc"
| "categoriesLoop ((cat, componentNames) # rest) store acc =
     categoriesLoop rest store
       (map_set acc cat
          (map (\<lambda>name. the (map_of store name)) (filter (\<lambda>name. map_has store name) componentNames)))"

definition buildCatalog :: "env \<Rightarrow> scraper \<Rightarrow> catalog \<times> scraper" where
  "buildCatalog e s =
     (let (now, s1) = readClock e s
      in (\<lparr> metadata =
             \<lparr> source = ''Untitled UI React Components'',
               md_url = baseUrl,
               scrapedAt = now,
               totalComponents = length (this_components s1),
               md_categories = map fst COMPONENT_CATEGORIES \<rparr>,
            categories = categoriesLoop COMPONENT_CATEGORIES (this_components s1) [],
            components = this_components s1 \<rparr>, s1))"

definition generateCatalog :: "env \<Rightarrow> scraper \<Rightarrow> failure + scraper" where
  "generateCatalog e s =
     (let (catalog, s1) = buildCatalog e s
      in case writeFile e (outputDir e @ ''/catalog.json'') (JsonCatalog catalog) s1 of
           Inl err \<Rightarrow> Inl err
         | Inr s2 \<Rightarrow>
             (case generateTypeDefinitions e catalog s2 of
                Inl err \<Rightarrow> Inl err
              | Inr s3 \<Rightarrow>
                  (case generateUsageGuide e catalog s3 of
                     Inl err \<Rightarrow> Inl err
                   | Inr s4 \<Rightarrow> generateSearchUtility e s4)))"

text \<open>
  \<^verbatim>\<open>run\<close> of the scraper: the exit status (1 after \<^verbatim>\<open>process.exit(1)\<close> in the
  \<^verbatim>\<open>catch\<close>, 0 otherwise) and the files written by the time the process ends.
\<close>

definition scraperRun :: "env \<Rightarrow> nat \<times> (string \<times> content) list" where
  "scraperRun e =
     (case init e newScraper of
        Inl (err, s1) \<Rightarrow> (1, files s1)
      | Inr s1 \<Rightarrow>
          (case generateCatalog e (scrapeAllComponents e s1) of
             Inl (err, s2) \<Rightarrow> (1, files s2)
           | Inr s2 \<Rightarrow> (0, files s2)))"

text \<open>The catalog a run assembles, once initialisation has succeeded.\<close>

definition scrapedCatalog :: "env \<Rightarrow> catalog" where
  "scrapedCatalog e = fst (buildCatalog e (scrapeAllComponents e newScraper))"

section \<open>The catalog helper CLI\<close>

text \<open>
  What a process run of the helper does that can be seen from outside, in order:
  reading the catalog file, lines on standard output and standard error,
  \<^verbatim>\<open>process.exit\<close>, and a \<^verbatim>\<open>TypeError\<close> that nothing catches (the promise of
  \<^verbatim>\<open>helper.run()\<close> is rejected and never handled, which ends the process).
\<close>

datatype event =
  ReadCatalog
| ConsoleLog string
| ConsoleError string
| ProcessExit nat
| UncaughtTypeError

text \<open>
  The exit status of a run: the argument of \<^verbatim>\<open>process.exit\<close>, 1 for an unhandled
  rejection (Node's default since version 15), 0 when the run reaches its end.
\<close>

fun exitStatus :: "event list \<Rightarrow> nat" where
  "exitStatus [] = 0"
| "exitStatus (ProcessExit n # es) = n"
| "exitStatus (UncaughtTypeError # es) = 1"
| "exitStatus (ev # es) = exitStatus es"

text \<open>
  Reading \<^verbatim>\<open>obj[key]\<close> on an object made by \<^verbatim>\<open>JSON.parse\<close>: an own property if
  there is one, otherwise what \<^verbatim>\<open>Object.prototype\<close> has under that key, otherwise
  \<^verbatim>\<open>undefined\<close>. The members of \<^verbatim>\<open>Object.prototype\<close> are built-in functions,
  listed with their \<^verbatim>\<open>name\<close> property, and the accessor \<^verbatim>\<open>__proto__\<close>, which
  gives \<^verbatim>\<open>Object.prototype\<close> itself (an object with no \<^verbatim>\<open>name\<close>). All of them
  are truthy, and none has a property \<^verbatim>\<open>installation\<close> or \<^verbatim>\<open>forEach\<close>.
\<close>

datatype 'a property = Own 'a | Inherited "string option" | Undefined

definition objectPrototype :: "(string \<times> string option) list" where
  "objectPrototype =
     [(''constructor'', Some ''Object''),
      (''__defineGetter__'', Some ''__defineGetter__''),
      (''__defineSetter__'', Some ''__defineSetter__''),
      (''hasOwnProperty'', Some ''hasOwnProperty''),
      (''__lookupGetter__'', Some ''__lookupGetter__''),
      (''__lookupSetter__'', Some ''__lookupSetter__''),
      (''isPrototypeOf'', Some ''isPrototypeOf''),
      (''propertyIsEnumerable'', Some ''propertyIsEnumerable''),
      (''toString'', Some ''toString''),
      (''valueOf'', Some ''valueOf''),
      (''__proto__'', None),
      (''toLocaleString'', Some ''toLocaleString'')]"

definition getProperty :: "(string \<times> 'a) list \<Rightarrow> string \<Rightarrow> 'a property" where
  "getProperty obj key =
     (case map_of obj key of
        Some v \<Rightarrow> Own v
      | None \<Rightarrow> (case map_of objectPrototype key of Some f \<Rightarrow> Inherited f | None \<Rightarrow> Undefined))"

definition emoji_cross :: string where
  "emoji_cross = [CHR 0xE2, CHR 0x9D, CHR 0x8C]"

definition emoji_search :: string where
  "emoji_search = [CHR 0xF0, CHR 0x9F, CHR 0x94, CHR 0x8D]"

definition emoji_target :: string where
  "emoji_target = [CHR 0xF0, CHR 0x9F, CHR 0x8E, CHR 0xAF]"

definition emoji_package :: string where
  "emoji_package = [CHR 0xF0, CHR 0x9F, CHR 0x93, CHR 0xA6]"

definition emoji_folder :: string where
  "emoji_folder = [CHR 0xF0, CHR 0x9F, CHR 0x93, CHR 0x82]"

definition emoji_books :: string where
  "emoji_books = [CHR 0xF0, CHR 0x9F, CHR 0x93, CHR 0x9A]"

definition emoji_rocket :: string where
  "emoji_rocket = [CHR 0xF0, CHR 0x9F, CHR 0x9A, CHR 0x80]"

definition emoji_palette :: string where
  "emoji_palette = [CHR 0xF0, CHR 0x9F, CHR 0x8E, CHR 0xA8]"

definition bullet :: string where
  "bullet = [CHR 0xE2, CHR 0x80, CHR 0xA2]"

text \<open>
  \<^verbatim>\<open>loadCatalog\<close>. The parameter \<open>disk\<close> is what reading and parsing the catalog
  file gives: \<open>None\<close> when \<^verbatim>\<open>fs.readFile\<close> or \<^verbatim>\<open>JSON.parse\<close> throws, otherwise
  the catalog, taken to have the shape the scraper writes. On failure the process exits
  at once, so the rest of the calling operation (\<open>k\<close>) does not run.
\<close>

definition loadCatalog :: "catalog option \<Rightarrow> (catalog \<Rightarrow> event list) \<Rightarrow> event list" where
  "loadCatalog disk k =
     ReadCatalog #
     (case disk of
        Some c \<Rightarrow> k c
      | None \<Rightarrow>
          [ConsoleError (emoji_cross @ '' Could not load catalog. Run npm run scrape-ui first.''),
           ProcessExit 1])"

definition matchesQuery :: "runtime \<Rightarrow> string \<Rightarrow> componentData \<Rightarrow> bool" where
  "matchesQuery rt lowerQuery component =
     (includes_str (toLowerCase rt (name component)) lowerQuery
      \<or> includes_str (toLowerCase rt (description component)) lowerQuery
      \<or> includes_str (toLowerCase rt (category component)) lowerQuery
      \<or> list_ex (\<lambda>variant. includes_str (toLowerCase rt variant) lowerQuery)
            (variants component))"

text \<open>The \<^verbatim>\<open>results\<close> array of \<^verbatim>\<open>search\<close>.\<close>

definition searchResults :: "runtime \<Rightarrow> catalog \<Rightarrow> string \<Rightarrow> componentData list" where
  "searchResults rt c query =
     (let lowerQuery = toLowerCase rt query
      in filter (matchesQuery rt lowerQuery) (map snd (components c)))"

definition search :: "runtime \<Rightarrow> catalog option \<Rightarrow> string \<Rightarrow> event list" where
  "search rt disk query =
     loadCatalog disk (\<lambda>c.
       let results = searchResults rt c query
       in if length results = 0 then
            [ConsoleLog (emoji_search @ '' No components found for '' @ dq @ query @ dq)]
          else
            ConsoleLog (emoji_target @ '' Found '' @ showNat (length results)
                        @ '' component(s) for '' @ dq @ query @ dq @ '':'' @ nl)
            # concat (map (\<lambda>comp.
                [ConsoleLog (emoji_package @ '' '' @ name comp @ '' ('' @ category comp @ '')''),
                 ConsoleLog (''   '' @ description comp),
                 ConsoleLog (''   Install: '' @ cli (installation comp)),
                 ConsoleLog (''   Variants: '' @ join '', '' (variants comp)),
                 ConsoleLog (''   Docs: '' @ documentation comp @ nl)]) results))"

text \<open>
  \<^verbatim>\<open>list(category = null)\<close>: the argument is \<open>None\<close> when none is passed. A string
  is truthy when it is not empty.
\<close>

definition truthy :: "string option \<Rightarrow> bool" where
  "truthy a = (case a of None \<Rightarrow> False | Some s \<Rightarrow> s \<noteq> [])"

definition listAll :: "runtime \<Rightarrow> catalog \<Rightarrow> event list" where
  "listAll rt c =
     ConsoleLog (emoji_books @ '' All Categories ('' @ showNat (totalComponents (metadata c))
                 @ '' components):'' @ nl)
     # concat (map (\<lambda>(catName, comps).
         ConsoleLog (emoji_folder @ '' '' @ toUpperCase rt catName @ '' (''
                     @ showNat (length comps) @ '' components)'')
         # map (\<lambda>comp. ConsoleLog (''  '' @ emoji_package @ '' '' @ name comp)) comps
         @ [ConsoleLog []]) (categories c))"

definition listCategory :: "runtime \<Rightarrow> catalog \<Rightarrow> string \<Rightarrow> event list" where
  "listCategory rt c cat =
     (case getProperty (categories c) cat of
        Undefined \<Rightarrow>
          [ConsoleLog (emoji_cross @ '' Category '' @ dq @ cat @ dq @ '' not found.''),
           ConsoleLog (''Available categories: '' @ join '', '' (map fst (categories c)))]
      | Own categoryComponents \<Rightarrow>
          ConsoleLog (emoji_folder @ '' '' @ toUpperCase rt cat @ '' Components:'' @ nl)
          # concat (map (\<lambda>comp.
              [ConsoleLog (''  '' @ emoji_package @ '' '' @ name comp @ '' - '' @ description comp),
               ConsoleLog (''     '' @ cli (installation comp))]) categoryComponents)
      | Inherited f \<Rightarrow>
          [ConsoleLog (emoji_folder @ '' '' @ toUpperCase rt cat @ '' Components:'' @ nl),
           UncaughtTypeError])"

definition list_cmd :: "runtime \<Rightarrow> catalog option \<Rightarrow> string option \<Rightarrow> event list" where
  "list_cmd rt disk cat =
     loadCatalog disk (\<lambda>c.
       if truthy cat then listCategory rt c (the cat) else listAll rt c)"

definition install :: "catalog option \<Rightarrow> string \<Rightarrow> event list" where
  "install disk componentName =
     loadCatalog disk (\<lambda>c.
       case getProperty (components c) componentName of
         Undefined \<Rightarrow>
           [ConsoleLog (emoji_cross @ '' Component '' @ dq @ componentName @ dq @ '' not found.''),
            ConsoleLog (''Use '' @ dq @ ''npm run ui search <query>'' @ dq @ '' to find components.'')]
       | Own component \<Rightarrow>
           [ConsoleLog (emoji_rocket @ '' Installing '' @ componentName @ ''...''),
            ConsoleLog (''Command: '' @ cli (installation component)),
            ConsoleLog (nl @ ''Component Info:''),
            ConsoleLog (''  Description: '' @ description component),
            ConsoleLog (''  Category: '' @ category component),
            ConsoleLog (''  Variants: '' @ join '', '' (variants component)),
            ConsoleLog (''  Dependencies: '' @ join '', '' (dependencies component)),
            ConsoleLog (''  Documentation: '' @ documentation component)]
       | Inherited f \<Rightarrow>
           [ConsoleLog (emoji_rocket @ '' Installing '' @ componentName @ ''...''),
            UncaughtTypeError])"

definition info :: "runtime \<Rightarrow> catalog option \<Rightarrow> string \<Rightarrow> event list" where
  "info rt disk componentName =
     loadCatalog disk (\<lambda>c.
       case getProperty (components c) componentName of
         Undefined \<Rightarrow>
           [ConsoleLog (emoji_cross @ '' Component '' @ dq @ componentName @ dq @ '' not found.'')]
       | Own component \<Rightarrow>
           [ConsoleLog (emoji_package @ '' '' @ toUpperCase rt (name component) @ nl),
            ConsoleLog (''Description: '' @ description component),
            ConsoleLog (''Category: '' @ category component),
            ConsoleLog (''Install: '' @ cli (installation component)),
            ConsoleLog (''Documentation: '' @ documentation component),
            ConsoleLog (''Dependencies: '' @ join '', '' (dependencies component))]
           @ (if length (variants component) > 0 then
                ConsoleLog (nl @ ''Variants:'')
                # map (\<lambda>variant. ConsoleLog (''  '' @ bullet @ '' '' @ variant)) (variants component)
              else [])
           @ (if length (props component) > 0 then
                ConsoleLog (nl @ ''Props:'')
                # map (\<lambda>(prop, type). ConsoleLog (''  '' @ bullet @ '' '' @ prop @ '': '' @ type))
                    (props component)
              else [])
       | Inherited None \<Rightarrow> [UncaughtTypeError]
       | Inherited (Some fname) \<Rightarrow>
           [ConsoleLog (emoji_package @ '' '' @ toUpperCase rt fname @ nl),
            ConsoleLog ''Description: undefined'',
            ConsoleLog ''Category: undefined'',
            UncaughtTypeError])"

definition helpText :: string where
  "helpText =
     nl @ unlines
       [emoji_palette @ '' Untitled UI Helper CLI'',
        [],
        ''Usage:'',
        ''  npm run ui <command> [args]'',
        [],
        ''Commands:'',
        ''  search <query>     Search for components by name, description, or category'',
        ''  list [category]    List all components or components in a specific category  '',
        ''  install <name>     Show installation info for a component'',
        ''  info <name>        Show detailed information about a component'',
        ''  help              Show this help message'',
        [],
        ''Examples:'',
        ''  npm run ui search button'',
        ''  npm run ui list inputs'',
        ''  npm run ui install button'',
        ''  npm run ui info button'',
        [],
        ''Categories: buttons, inputs, avatars, navigation, feedback, overlays, layout, data-display, forms'']"

definition showHelp :: "event list" where
  "showHelp = [ConsoleLog helpText]"

text \<open>\<^verbatim>\<open>args[i]\<close>: \<open>None\<close> is \<^verbatim>\<open>undefined\<close>.\<close>

definition arg :: "string list \<Rightarrow> nat \<Rightarrow> string option" where
  "arg args i = (if i < length args then Some (args ! i) else None)"

text \<open>
  \<^verbatim>\<open>run\<close>, on \<open>args = process.argv.slice(2)\<close>. \<^verbatim>\<open>!args[1]\<close> holds for a missing
  and for an empty second argument.
\<close>

definition run :: "runtime \<Rightarrow> catalog option \<Rightarrow> string list \<Rightarrow> event list" where
  "run rt disk args =
     (let command = arg args 0
      in if command = Some ''search'' then
           (if \<not> truthy (arg args 1) then
              [ConsoleLog (emoji_cross @ '' Please provide a search query''),
               ConsoleLog ''Usage: npm run ui search <query>'']
            else search rt disk (the (arg args 1)))
         else if command = Some ''list'' then list_cmd rt disk (arg args 1)
         else if command = Some ''install'' then
           (if \<not> truthy (arg args 1) then
              [ConsoleLog (emoji_cross @ '' Please provide a component name''),
               ConsoleLog ''Usage: npm run ui install <component-name>'']
            else install disk (the (arg args 1)))
         else if command = Some ''info'' then
           (if \<not> truthy (arg args 1) then
              [ConsoleLog (emoji_cross @ '' Please provide a component name''),
               ConsoleLog ''Usage: npm run ui info <component-name>'']
            else info rt disk (the (arg args 1)))
         else showHelp)"

section \<open>The sitemap rules of the site build configuration\<close>

text \<open>
  An item of the sitemap as the integration hands it to \<^verbatim>\<open>serialize\<close>. The record is
  extensible: whatever else an item carries (\<^verbatim>\<open>lastmod\<close>, links) is passed through.
  The priorities are the decimal literals of the source.
\<close>

record sitemapItem =
  url :: string
  priority :: real
  changefreq :: string

definition serialize :: "'a sitemapItem_scheme \<Rightarrow> 'a sitemapItem_scheme" where
  "serialize item =
     (if includes_str (url item) ''/projects/'' then
        item\<lparr> priority := 0.9, changefreq := ''weekly'' \<rparr>
      else if includes_str (url item) ''/blog/'' then
        item\<lparr> priority := 0.8, changefreq := ''weekly'' \<rparr>
      else if url item = ''https://nextworkmarketing.com/'' then
        item\<lparr> priority := 1.0, changefreq := ''daily'' \<rparr>
      else if includes_str (url item) ''/about'' \<or> includes_str (url item) ''/careers'' then
        item\<lparr> priority := 0.6, changefreq := ''monthly'' \<rparr>
      else if includes_str (url item) ''/privacy'' \<or> includes_str (url item) ''/terms'' then
        item\<lparr> priority := 0.3, changefreq := ''yearly'' \<rparr>
      else item)"

text \<open>
  The item for a page before \<^verbatim>\<open>serialize\<close> sees it: the integration fills in the
  configured defaults \<^verbatim>\<open>changefreq: 'weekly'\<close> and \<^verbatim>\<open>priority: 0.7\<close>.
\<close>

definition defaultItem :: "string \<Rightarrow> sitemapItem" where
  "defaultItem u = \<lparr> url = u, priority = 0.7, changefreq = ''weekly'' \<rparr>"

definition sitemapFilter :: "string \<Rightarrow> bool" where
  "sitemapFilter page = (\<not> includes_str page ''/admin/'' \<and> \<not> includes_str page ''/internal/'')"

section \<open>Notions used in the statements\<close>

text \<open>
  A record, a store, the category lists and a catalog with their timestamps blanked:
  two values agree on everything but \<open>lastUpdated\<close> and \<open>scrapedAt\<close> exactly when
  their blanked forms are equal.
\<close>

definition stripRecord :: "componentData \<Rightarrow> componentData" where
  "stripRecord r = r\<lparr> lastUpdated := [] \<rparr>"

definition stripStore :: "(string \<times> componentData) list \<Rightarrow> (string \<times> componentData) list" where
  "stripStore m = map (\<lambda>(k, r). (k, stripRecord r)) m"

definition stripCategories ::
  "(string \<times> componentData list) list \<Rightarrow> (string \<times> componentData list) list" where
  "stripCategories cs = map (\<lambda>(k, rs). (k, map stripRecord rs)) cs"

definition stripCatalog :: "catalog \<Rightarrow> catalog" where
  "stripCatalog c =
     c\<lparr> metadata := (metadata c)\<lparr> scrapedAt := [] \<rparr>,
        categories := stripCategories (categories c),
        components := stripStore (components c) \<rparr>"

text \<open>
  The store is well formed when no key occurs twice and every record is stored under
  its own name.
\<close>

definition storeOk :: "(string \<times> componentData) list \<Rightarrow> bool" where
  "storeOk m = (distinct (map fst m) \<and> (\<forall>(k, r) \<in> set m. name r = k))"

text \<open>
  Case functions for concrete runs on ASCII text, where the Unicode tables change the
  letters \<open>a\<close> to \<open>z\<close> and \<open>A\<close> to \<open>Z\<close> and nothing else. They are used on ASCII
  text only.
\<close>

definition asciiUpperChar :: "char \<Rightarrow> char" where
  "asciiUpperChar c =
     (let n = (of_char c :: nat) in if 97 \<le> n \<and> n \<le> 122 then char_of (n - 32) else c)"

definition asciiLowerChar :: "char \<Rightarrow> char" where
  "asciiLowerChar c =
     (let n = (of_char c :: nat) in if 65 \<le> n \<and> n \<le> 90 then char_of (n + 32) else c)"

definition asciiRuntime :: runtime where
  "asciiRuntime = \<lparr> toLowerCase = map asciiLowerChar, toUpperCase = map asciiUpperChar \<rparr>"

text \<open>An environment for concrete runs: a fixed clock reading, every write succeeds.\<close>

definition exampleEnv :: env where
  "exampleEnv = \<lparr> clock = (\<lambda>n. ''2026-01-01T00:00:00.000Z''), writable = (\<lambda>p. True),
                   outputDir = ''/site/src/lib/untitled-ui'', js = asciiRuntime \<rparr>"

text \<open>\<open>t\<close> is a substring of \<open>s\<close>.\<close>

definition occursIn :: "string \<Rightarrow> string \<Rightarrow> bool" where
  "occursIn t s = (\<exists>before after. s = before @ t @ after)"

text \<open>A small catalog of the shape the scraper writes, for concrete runs of the helper.\<close>

definition exampleCatalog :: catalog where
  "exampleCatalog =
     \<lparr> metadata = \<lparr> source = ''Untitled UI React Components'', md_url = baseUrl,
                    scrapedAt = ''2026-01-01T00:00:00.000Z'', totalComponents = 2,
                    md_categories = [''buttons'', ''inputs''] \<rparr>,
       categories =
         [(''buttons'', [fetchComponentInfo asciiRuntime ''2026-01-01T00:00:00.000Z'' ''button'']),
          (''inputs'', [fetchComponentInfo asciiRuntime ''2026-01-01T00:00:00.000Z'' ''input''])],
       components =
         [(''button'', fetchComponentInfo asciiRuntime ''2026-01-01T00:00:00.000Z'' ''button''),
          (''input'', fetchComponentInfo asciiRuntime ''2026-01-01T00:00:00.000Z'' ''input'')] \<rparr>"

section \<open>Properties of the record synthesis\<close>

text \<open>
  C2. For every component name, the record made by \<^verbatim>\<open>fetchComponentInfo\<close> carries the
  install command \<^verbatim>\<open>npx untitledui@latest add \<close> followed by exactly that name, and
  its \<open>manual\<close> flag is true, whatever the clock reads.
\<close>

theorem fetchComponentInfo_installation:
  "cli (installation (fetchComponentInfo rt now X)) = ''npx untitledui@latest add '' @ X
   \<and> manual (installation (fetchComponentInfo rt now X)) = True"
  by (simp add: fetchComponentInfo_def Let_def)

text \<open>
  The loop of \<^verbatim>\<open>getCategoryForComponent\<close> on any list of entries whose member lists
  share no name: a listed name gets the category that lists it.
\<close>

lemma categoryLoop_member:
  "distinct (concat (map snd cs)) \<Longrightarrow> (cat, comps) \<in> set cs \<Longrightarrow> n \<in> set comps
     \<Longrightarrow> categoryLoop cs n = cat"
proof (induction cs)
  case Nil
  then show ?case by simp
next
  case (Cons entry rest)
  obtain cat' comps' where entry: "entry = (cat', comps')" by (cases entry)
  show ?case
  proof (cases "n \<in> set comps'")
    case True
    have "(cat, comps) = (cat', comps')"
    proof (rule ccontr)
      assume "(cat, comps) \<noteq> (cat', comps')"
      with Cons.prems(2) entry have "(cat, comps) \<in> set rest" by auto
      then have "n \<in> (\<Union>a\<in>set rest. set (snd a))" using Cons.prems(3) by force
      with Cons.prems(1) entry True show False by auto
    qed
    with entry True show ?thesis by simp
  next
    case False
    with Cons entry show ?thesis by auto
  qed
qed

lemma categoryLoop_misc:
  "\<forall>(cat, comps) \<in> set cs. n \<notin> set comps \<Longrightarrow> categoryLoop cs n = ''misc''"
  by (induction cs) auto

lemma taxonomy_distinct: "distinct (concat (map snd COMPONENT_CATEGORIES))"
  by (simp add: COMPONENT_CATEGORIES_def)

text \<open>
  C3. Every name listed by a category of the static taxonomy is given that category by
  \<^verbatim>\<open>getCategoryForComponent\<close>, and a name that no category lists is given
  \<open>misc\<close>.
\<close>

theorem getCategoryForComponent_taxonomy:
  "(\<forall>(cat, comps) \<in> set COMPONENT_CATEGORIES. \<forall>n \<in> set comps. getCategoryForComponent n = cat)
   \<and> (\<forall>n. (\<forall>(cat, comps) \<in> set COMPONENT_CATEGORIES. n \<notin> set comps)
          \<longrightarrow> getCategoryForComponent n = ''misc'')"
  unfolding getCategoryForComponent_def
  using categoryLoop_member [OF taxonomy_distinct] categoryLoop_misc by blast

theorem getCategoryForComponent_taxonomy_witness:
  "(''buttons'', [''button'', ''button-group'', ''split-button'']) \<in> set COMPONENT_CATEGORIES
   \<and> getCategoryForComponent ''button'' = ''buttons''
   \<and> getCategoryForComponent ''nonexistent'' = ''misc''"
proof -
  have mem: "(''buttons'', [''button'', ''button-group'', ''split-button'']) \<in> set COMPONENT_CATEGORIES"
    by (simp add: COMPONENT_CATEGORIES_def)
  have none: "\<forall>(cat, comps) \<in> set COMPONENT_CATEGORIES. ''nonexistent'' \<notin> set comps"
    by (simp add: COMPONENT_CATEGORIES_def)
  from getCategoryForComponent_taxonomy mem
  have "\<forall>n \<in> set [''button'', ''button-group'', ''split-button'']. getCategoryForComponent n = ''buttons''"
    by blast
  then have b: "getCategoryForComponent ''button'' = ''buttons''" by simp
  from getCategoryForComponent_taxonomy none
  have m: "getCategoryForComponent ''nonexistent'' = ''misc''" by blast
  from mem b m show ?thesis by simp
qed

text \<open>
  C4. The record for \<open>button\<close> has exactly the five hand-written variants, the record
  for \<open>input\<close> has the prop \<open>size\<close> with the text \<open>sm | md | lg\<close>, and the record
  for any other name has no variants and no props.
\<close>

theorem fetchComponentInfo_overrides:
  "variants (fetchComponentInfo rt now ''button'')
     = [''primary'', ''secondary'', ''tertiary'', ''destructive'', ''link'']
   \<and> map_of (props (fetchComponentInfo rt now ''input'')) ''size'' = Some ''sm | md | lg''
   \<and> (X \<noteq> ''button'' \<and> X \<noteq> ''input''
        \<longrightarrow> variants (fetchComponentInfo rt now X) = [] \<and> props (fetchComponentInfo rt now X) = [])"
  by (simp add: fetchComponentInfo_def Let_def)

theorem fetchComponentInfo_overrides_witness:
  "''card'' \<noteq> ''button'' \<and> ''card'' \<noteq> ''input''
   \<and> variants (fetchComponentInfo asciiRuntime ''2026-01-01T00:00:00.000Z'' ''card'') = []
   \<and> props (fetchComponentInfo asciiRuntime ''2026-01-01T00:00:00.000Z'' ''card'') = []"
  using fetchComponentInfo_overrides [of asciiRuntime "''2026-01-01T00:00:00.000Z''" "''card''"] by simp

section \<open>Properties of a scraper run\<close>

subsection \<open>The store and the category lists\<close>

lemma map_of_map_set: "map_of (map_set m k v) k' = (if k' = k then Some v else map_of m k')"
  by (induction m k v rule: map_set.induct) auto

lemma keys_map_set: "fst ` set (map_set m k v) = insert k (fst ` set m)"
  by (induction m k v rule: map_set.induct) auto

lemma set_map_set: "set (map_set m k v) \<subseteq> insert (k, v) (set m)"
  by (induction m k v rule: map_set.induct) auto

lemma distinct_map_set: "distinct (map fst m) \<Longrightarrow> distinct (map fst (map_set m k v))"
proof (induction m k v rule: map_set.induct)
  case (1 k v)
  then show ?case by simp
next
  case (2 k' v' m k v)
  then show ?case using keys_map_set [of m k v] by (auto simp: image_iff)
qed

lemma storeOk_map_set: "storeOk m \<Longrightarrow> name v = k \<Longrightarrow> storeOk (map_set m k v)"
  unfolding storeOk_def using set_map_set [of m k v] distinct_map_set [of m k v] by auto

lemma name_fetchComponentInfo: "name (fetchComponentInfo rt now n) = n"
  by (simp add: fetchComponentInfo_def Let_def)

lemma scrapeLoop_step:
  "\<exists>s'. scrapeLoop e (n # ns) s = scrapeLoop e ns s'
        \<and> this_components s' = map_set (this_components s) n (fetchComponentInfo (js e) (clock e (ticks s)) n)
        \<and> ticks s' = Suc (ticks s)"
proof (cases "writable e (outputDir e @ ''/components/'' @ n @ ''.json'')")
  case True
  then show ?thesis
    by (intro exI [of _ "s\<lparr> ticks := Suc (ticks s),
          this_components := map_set (this_components s) n (fetchComponentInfo (js e) (clock e (ticks s)) n),
          files := map_set (files s) (outputDir e @ ''/components/'' @ n @ ''.json'')
            (JsonComponent (fetchComponentInfo (js e) (clock e (ticks s)) n)) \<rparr>"])
      (simp add: readClock_def saveComponentFile_def writeFile_def Let_def)
next
  case False
  then show ?thesis
    by (intro exI [of _ "s\<lparr> ticks := Suc (ticks s),
          this_components := map_set (this_components s) n (fetchComponentInfo (js e) (clock e (ticks s)) n) \<rparr>"])
      (simp add: readClock_def saveComponentFile_def writeFile_def Let_def)
qed

lemma scrapeLoop_storeOk:
  "storeOk (this_components s) \<Longrightarrow> storeOk (this_components (scrapeLoop e ns s))"
proof (induction ns arbitrary: s)
  case Nil
  then show ?case by simp
next
  case (Cons n ns)
  obtain s' where step: "scrapeLoop e (n # ns) s = scrapeLoop e ns s'"
    and store: "this_components s' = map_set (this_components s) n (fetchComponentInfo (js e) (clock e (ticks s)) n)"
    using scrapeLoop_step by blast
  from Cons.prems store have "storeOk (this_components s')"
    by (simp add: storeOk_map_set name_fetchComponentInfo)
  with Cons.IH step show ?case by simp
qed

lemma scrapeLoop_keys:
  "fst ` set (this_components (scrapeLoop e ns s)) = fst ` set (this_components s) \<union> set ns"
proof (induction ns arbitrary: s)
  case Nil
  then show ?case by simp
next
  case (Cons n ns)
  obtain s' where step: "scrapeLoop e (n # ns) s = scrapeLoop e ns s'"
    and store: "this_components s' = map_set (this_components s) n (fetchComponentInfo (js e) (clock e (ticks s)) n)"
    using scrapeLoop_step by blast
  show ?case unfolding step Cons.IH store keys_map_set by auto
qed

lemma categoriesLoop_members:
  "\<forall>(c, rs) \<in> set acc. set rs \<subseteq> snd ` set store
   \<Longrightarrow> \<forall>(c, rs) \<in> set (categoriesLoop cs store acc). set rs \<subseteq> snd ` set store"
proof (induction cs arbitrary: acc)
  case Nil
  then show ?case by simp
next
  case (Cons entry cs)
  obtain cat names where entry: "entry = (cat, names)" by (cases entry)
  let ?recs = "map (\<lambda>name. the (map_of store name)) (filter (\<lambda>name. map_has store name) names)"
  have recs: "set ?recs \<subseteq> snd ` set store"
  proof
    fix r
    assume "r \<in> set ?recs"
    then obtain n where has: "map_has store n" and r: "r = the (map_of store n)" by auto
    from has obtain r' where some: "map_of store n = Some r'" by (auto simp: map_has_def)
    with r have "(n, r) \<in> set store" by (auto dest: map_of_SomeD)
    then show "r \<in> snd ` set store" by force
  qed
  have "\<forall>(c, rs) \<in> set (map_set acc cat ?recs). set rs \<subseteq> snd ` set store"
    using set_map_set [of acc cat ?recs] Cons.prems recs by blast
  from Cons.IH [OF this] entry show ?case by simp
qed

text \<open>
  C1. In the catalog a scraper run assembles, \<open>metadata.totalComponents\<close> is the
  number of keys of \<open>components\<close>, and the name of every record in every category
  list is a key of \<open>components\<close>.
\<close>

theorem catalog_invariant:
  "totalComponents (metadata (scrapedCatalog e)) = card (fst ` set (components (scrapedCatalog e)))
   \<and> (\<forall>(cat, recs) \<in> set (categories (scrapedCatalog e)). \<forall>r \<in> set recs.
         name r \<in> fst ` set (components (scrapedCatalog e)))"
proof -
  let ?store = "this_components (scrapeAllComponents e newScraper)"
  have ok: "storeOk ?store"
    unfolding scrapeAllComponents_def
    by (rule scrapeLoop_storeOk) (simp add: storeOk_def newScraper_def)
  have comps: "components (scrapedCatalog e) = ?store"
    by (simp add: scrapedCatalog_def buildCatalog_def readClock_def)
  have cats: "categories (scrapedCatalog e) = categoriesLoop COMPONENT_CATEGORIES ?store []"
    by (simp add: scrapedCatalog_def buildCatalog_def readClock_def)
  have total: "totalComponents (metadata (scrapedCatalog e)) = length ?store"
    by (simp add: scrapedCatalog_def buildCatalog_def readClock_def)
  from ok have "card (fst ` set ?store) = length ?store"
    unfolding storeOk_def using distinct_card [of "map fst ?store"] by simp
  with total comps have first: "totalComponents (metadata (scrapedCatalog e))
      = card (fst ` set (components (scrapedCatalog e)))" by simp
  have "\<forall>(c, rs) \<in> set (categoriesLoop COMPONENT_CATEGORIES ?store []). set rs \<subseteq> snd ` set ?store"
    by (rule categoriesLoop_members) simp
  moreover have "\<And>r. r \<in> snd ` set ?store \<Longrightarrow> name r \<in> fst ` set ?store"
    using ok unfolding storeOk_def by force
  ultimately have second: "\<forall>(cat, recs) \<in> set (categories (scrapedCatalog e)). \<forall>r \<in> set recs.
         name r \<in> fst ` set (components (scrapedCatalog e))"
    unfolding cats comps by blast
  from first second show ?thesis by simp
qed

lemma allComponents_eq: "allComponents =
  [''button'', ''button-group'', ''split-button'', ''input'', ''textarea'',
  ''select'', ''checkbox'', ''radio'', ''switch'', ''file-upload'',
  ''avatar'', ''avatar-group'', ''breadcrumb'', ''pagination'', ''tabs'',
  ''navbar'', ''sidebar'', ''alert'', ''toast'', ''progress'', ''spinner'',
  ''badge'', ''modal'', ''popover'', ''tooltip'', ''dropdown'', ''dialog'',
  ''card'', ''container'', ''divider'', ''stack'', ''table'', ''list'',
  ''stat'', ''timeline'', ''carousel'', ''form'', ''fieldset'',
  ''form-control'', ''validation'']"
  by (simp add: allComponents_def COMPONENT_CATEGORIES_def set_add_def)



subsection \<open>The catalog of a run whose clock reads the same time throughout\<close>

lemma map_set_fresh: "k \<notin> fst ` set m \<Longrightarrow> map_set m k v = m @ [(k, v)]"
  by (induction m k v rule: map_set.induct) auto

lemma scrapeLoop_store_const:
  "\<forall>i. clock e i = t \<Longrightarrow> distinct ns \<Longrightarrow> set ns \<inter> fst ` set (this_components s) = {}
   \<Longrightarrow> this_components (scrapeLoop e ns s)
       = this_components s @ map (\<lambda>n. (n, fetchComponentInfo (js e) t n)) ns"
proof (induction ns arbitrary: s)
  case Nil
  then show ?case by simp
next
  case (Cons n ns)
  obtain s' where step: "scrapeLoop e (n # ns) s = scrapeLoop e ns s'"
    and store: "this_components s' = map_set (this_components s) n (fetchComponentInfo (js e) (clock e (ticks s)) n)"
    using scrapeLoop_step by blast
  from Cons.prems have fresh: "n \<notin> fst ` set (this_components s)" by auto
  with store Cons.prems(1) have store': "this_components s' = this_components s @ [(n, fetchComponentInfo (js e) t n)]"
    by (simp add: map_set_fresh)
  with Cons.prems have "set ns \<inter> fst ` set (this_components s') = {}" by auto
  with Cons.IH [of s'] Cons.prems have "this_components (scrapeLoop e ns s')
       = this_components s' @ map (\<lambda>n. (n, fetchComponentInfo (js e) t n)) ns" by simp
  with step store' show ?case by simp
qed

lemma categoriesLoop_map:
  "distinct (map fst cs) \<Longrightarrow> fst ` set acc \<inter> fst ` set cs = {}
   \<Longrightarrow> categoriesLoop cs store acc
       = acc @ map (\<lambda>(c, names). (c, map (\<lambda>name. the (map_of store name))
                                       (filter (\<lambda>name. map_has store name) names))) cs"
proof (induction cs arbitrary: acc)
  case Nil
  then show ?case by simp
next
  case (Cons entry cs)
  obtain c names where entry: "entry = (c, names)" by (cases entry)
  let ?recs = "map (\<lambda>name. the (map_of store name)) (filter (\<lambda>name. map_has store name) names)"
  from Cons.prems entry have fresh: "c \<notin> fst ` set acc" by auto
  then have upd: "map_set acc c ?recs = acc @ [(c, ?recs)]" by (rule map_set_fresh)
  from Cons.prems have "distinct (map fst cs)" by simp
  moreover from Cons.prems entry have "fst ` set (acc @ [(c, ?recs)]) \<inter> fst ` set cs = {}" by auto
  ultimately have "categoriesLoop cs store (acc @ [(c, ?recs)])
      = (acc @ [(c, ?recs)]) @ map (\<lambda>(c, names). (c, map (\<lambda>name. the (map_of store name))
                                       (filter (\<lambda>name. map_has store name) names))) cs"
    by (rule Cons.IH)
  with entry upd show ?case by simp
qed

lemma records_of_listed:
  "set names \<subseteq> set xs
   \<Longrightarrow> map (\<lambda>name. the (map_of (map (\<lambda>n. (n, f n)) xs) name))
         (filter (\<lambda>name. map_has (map (\<lambda>n. (n, f n)) xs) name) names) = map f names"
proof -
  assume sub: "set names \<subseteq> set xs"
  have look: "\<And>n. n \<in> set xs \<Longrightarrow> map_of (map (\<lambda>n. (n, f n)) xs) n = Some (f n)"
    by (induction xs) auto
  from sub look have "filter (\<lambda>name. map_has (map (\<lambda>n. (n, f n)) xs) name) names = names"
    by (auto simp: map_has_def filter_id_conv)
  with sub look show ?thesis by auto
qed

lemma taxonomy_keys_distinct: "distinct (map fst COMPONENT_CATEGORIES)"
  by (simp add: COMPONENT_CATEGORIES_def)

lemma allComponents_distinct: "distinct allComponents"
  by (simp add: allComponents_eq)

lemma taxonomy_listed: "\<forall>(c, names) \<in> set COMPONENT_CATEGORIES. set names \<subseteq> set allComponents"
  by (simp add: allComponents_eq COMPONENT_CATEGORIES_def)

lemma scrapedCatalog_const:
  assumes "\<forall>i. clock e i = t"
  shows "scrapedCatalog e =
     \<lparr> metadata = \<lparr> source = ''Untitled UI React Components'', md_url = baseUrl, scrapedAt = t,
                    totalComponents = 40, md_categories = map fst COMPONENT_CATEGORIES \<rparr>,
       categories = map (\<lambda>(c, names). (c, map (fetchComponentInfo (js e) t) names)) COMPONENT_CATEGORIES,
       components = map (\<lambda>n. (n, fetchComponentInfo (js e) t n)) allComponents \<rparr>"
proof -
  let ?store = "map (\<lambda>n. (n, fetchComponentInfo (js e) t n)) allComponents"
  have store: "this_components (scrapeAllComponents e newScraper) = ?store"
    unfolding scrapeAllComponents_def
    using scrapeLoop_store_const [OF assms allComponents_distinct, of newScraper]
    by (simp add: newScraper_def)
  have len: "length allComponents = 40" by (simp add: allComponents_eq)
  have "categoriesLoop COMPONENT_CATEGORIES ?store []
      = map (\<lambda>(c, names). (c, map (\<lambda>name. the (map_of ?store name))
                                       (filter (\<lambda>name. map_has ?store name) names))) COMPONENT_CATEGORIES"
    using categoriesLoop_map [OF taxonomy_keys_distinct, of "[]" ?store] by simp
  also have "\<dots> = map (\<lambda>(c, names). (c, map (fetchComponentInfo (js e) t) names)) COMPONENT_CATEGORIES"
    using taxonomy_listed by (auto simp: records_of_listed)
  finally have cats: "categoriesLoop COMPONENT_CATEGORIES ?store []
      = map (\<lambda>(c, names). (c, map (fetchComponentInfo (js e) t) names)) COMPONENT_CATEGORIES" .
  show ?thesis
    using assms by (simp add: scrapedCatalog_def buildCatalog_def readClock_def store cats len)
qed

theorem catalog_invariant_witness:
  "(''avatars'', map (fetchComponentInfo asciiRuntime ''2026-01-01T00:00:00.000Z'') [''avatar'', ''avatar-group''])
      \<in> set (categories (scrapedCatalog exampleEnv))
   \<and> fetchComponentInfo asciiRuntime ''2026-01-01T00:00:00.000Z'' ''avatar-group''
      \<in> set (map (fetchComponentInfo asciiRuntime ''2026-01-01T00:00:00.000Z'') [''avatar'', ''avatar-group''])
   \<and> ''avatar-group'' \<in> fst ` set (components (scrapedCatalog exampleEnv))
   \<and> totalComponents (metadata (scrapedCatalog exampleEnv)) = 40
   \<and> card (fst ` set (components (scrapedCatalog exampleEnv))) = 40"
proof -
  have clk: "\<forall>i. clock exampleEnv i = ''2026-01-01T00:00:00.000Z''" by (simp add: exampleEnv_def)
  have jse: "js exampleEnv = asciiRuntime" by (simp add: exampleEnv_def)
  have "(''avatars'', [''avatar'', ''avatar-group'']) \<in> set COMPONENT_CATEGORIES"
    by (simp add: COMPONENT_CATEGORIES_def)
  then have mem: "(''avatars'', map (fetchComponentInfo asciiRuntime ''2026-01-01T00:00:00.000Z'') [''avatar'', ''avatar-group''])
      \<in> set (categories (scrapedCatalog exampleEnv))"
    unfolding scrapedCatalog_const [OF clk] jse by force
  have r: "fetchComponentInfo asciiRuntime ''2026-01-01T00:00:00.000Z'' ''avatar-group''
      \<in> set (map (fetchComponentInfo asciiRuntime ''2026-01-01T00:00:00.000Z'') [''avatar'', ''avatar-group''])"
    by simp
  have total: "totalComponents (metadata (scrapedCatalog exampleEnv)) = 40"
    unfolding scrapedCatalog_const [OF clk] by simp
  from catalog_invariant [of exampleEnv] mem r
  have "name (fetchComponentInfo asciiRuntime ''2026-01-01T00:00:00.000Z'' ''avatar-group'')
      \<in> fst ` set (components (scrapedCatalog exampleEnv))" by blast
  then have key: "''avatar-group'' \<in> fst ` set (components (scrapedCatalog exampleEnv))"
    by (simp add: name_fetchComponentInfo)
  from catalog_invariant [of exampleEnv] total
  have "card (fst ` set (components (scrapedCatalog exampleEnv))) = 40" by simp
  with mem r key total show ?thesis by simp
qed

subsection \<open>Running the scraper again\<close>

lemma stripStore_map_set: "stripStore (map_set m k v) = map_set (stripStore m) k (stripRecord v)"
  by (induction m k v rule: map_set.induct) (auto simp: stripStore_def)

lemma stripCategories_map_set:
  "stripCategories (map_set acc c rs) = map_set (stripCategories acc) c (map stripRecord rs)"
  by (induction acc c rs rule: map_set.induct) (auto simp: stripCategories_def)

lemma stripRecord_fetchComponentInfo:
  "stripRecord (fetchComponentInfo rt now n) = stripRecord (fetchComponentInfo rt now' n)"
  by (simp add: stripRecord_def fetchComponentInfo_def Let_def)

lemma map_of_stripStore: "map_of (stripStore m) k = map_option stripRecord (map_of m k)"
  by (induction m) (auto simp: stripStore_def)

lemma map_has_stripStore: "map_has (stripStore m) k = map_has m k"
  by (simp add: map_has_def map_of_stripStore)

lemma scrapeLoop_strip:
  "js e' = js e \<Longrightarrow> stripStore (this_components s) = stripStore (this_components s')
   \<Longrightarrow> stripStore (this_components (scrapeLoop e ns s))
       = stripStore (this_components (scrapeLoop e' ns s'))"
proof (induction ns arbitrary: s s')
  case Nil
  then show ?case by simp
next
  case (Cons n ns)
  obtain t where step: "scrapeLoop e (n # ns) s = scrapeLoop e ns t"
    and store: "this_components t = map_set (this_components s) n (fetchComponentInfo (js e) (clock e (ticks s)) n)"
    using scrapeLoop_step by blast
  obtain t' where step': "scrapeLoop e' (n # ns) s' = scrapeLoop e' ns t'"
    and store': "this_components t' = map_set (this_components s') n (fetchComponentInfo (js e') (clock e' (ticks s')) n)"
    using scrapeLoop_step by blast
  have "stripStore (this_components t) = stripStore (this_components t')"
    unfolding store store' stripStore_map_set
    using Cons.prems stripRecord_fetchComponentInfo [of "js e" "clock e (ticks s)" n "clock e' (ticks s')"]
    by simp
  from Cons.IH [OF Cons.prems(1) this] step step' show ?case by simp
qed

lemma strip_listed_records:
  "map stripRecord (map (\<lambda>name. the (map_of m name)) (filter (\<lambda>name. map_has m name) ns))
   = map (\<lambda>name. the (map_of (stripStore m) name)) (filter (\<lambda>name. map_has (stripStore m) name) ns)"
  by (induction ns) (auto simp: map_has_stripStore map_of_stripStore map_has_def)

lemma categoriesLoop_strip:
  "stripCategories (categoriesLoop cs m acc) = categoriesLoop cs (stripStore m) (stripCategories acc)"
proof (induction cs arbitrary: acc)
  case Nil
  then show ?case by simp
next
  case (Cons entry cs)
  obtain c ns where entry: "entry = (c, ns)" by (cases entry)
  show ?case
    unfolding entry
    by (simp only: categoriesLoop.simps Cons.IH stripCategories_map_set strip_listed_records)
qed

lemma generateCatalog_status:
  "isl (generateCatalog (e\<lparr> clock := c2 \<rparr>) s) = isl (generateCatalog e s')"
  by (simp add: generateCatalog_def buildCatalog_def readClock_def writeFile_def
      generateTypeDefinitions_def generateUsageGuide_def generateSearchUtility_def)

text \<open>
  C7. Two runs of the scraper that differ only in what the clock reads assemble
  catalogs with the same keys of \<open>components\<close>, in the same order, and with the same
  values in every field of the catalog and of every record other than \<open>scrapedAt\<close>
  and \<open>lastUpdated\<close>; and one run ends in failure exactly when the other does.
\<close>

theorem scraper_rerun:
  "map fst (components (scrapedCatalog (e\<lparr> clock := c2 \<rparr>))) = map fst (components (scrapedCatalog e))
   \<and> stripCatalog (scrapedCatalog (e\<lparr> clock := c2 \<rparr>)) = stripCatalog (scrapedCatalog e)
   \<and> fst (scraperRun (e\<lparr> clock := c2 \<rparr>)) = fst (scraperRun e)"
proof -
  let ?e2 = "e\<lparr> clock := c2 \<rparr>"
  let ?m = "this_components (scrapeAllComponents e newScraper)"
  let ?m2 = "this_components (scrapeAllComponents ?e2 newScraper)"
  have store: "stripStore ?m2 = stripStore ?m"
    unfolding scrapeAllComponents_def by (rule scrapeLoop_strip) simp_all
  then have "map fst (stripStore ?m2) = map fst (stripStore ?m)" by simp
  then have keys: "map fst ?m2 = map fst ?m"
    by (simp add: stripStore_def case_prod_unfold comp_def)
  then have len: "length ?m2 = length ?m" by (rule map_eq_imp_length_eq)
  have cats: "stripCategories (categoriesLoop COMPONENT_CATEGORIES ?m2 [])
      = stripCategories (categoriesLoop COMPONENT_CATEGORIES ?m [])"
    by (simp add: categoriesLoop_strip store)
  have first: "map fst (components (scrapedCatalog ?e2)) = map fst (components (scrapedCatalog e))"
    using keys by (simp add: scrapedCatalog_def buildCatalog_def readClock_def)
  have second: "stripCatalog (scrapedCatalog ?e2) = stripCatalog (scrapedCatalog e)"
    using store cats len
    by (simp add: stripCatalog_def scrapedCatalog_def buildCatalog_def readClock_def)
  have third: "fst (scraperRun ?e2) = fst (scraperRun e)"
    using generateCatalog_status [where e = e and ?c2.0 = c2
        and s = "scrapeAllComponents ?e2 newScraper" and s' = "scrapeAllComponents e newScraper"]
    by (auto simp: scraperRun_def init_def split: sum.splits)
  from first second third show ?thesis by simp
qed

subsection \<open>What a successful run leaves on disk\<close>

text \<open>
  When the run ends with status 0, \<^verbatim>\<open>catalog.json\<close> holds the catalog the
  statements above are about, and \<^verbatim>\<open>types.ts\<close> the text generated from it. The
  example environment gives such a run.
\<close>

lemma scraperRun_catalog_file:
  "fst (scraperRun e) = 0
   \<Longrightarrow> map_of (snd (scraperRun e)) (outputDir e @ ''/catalog.json'')
       = Some (JsonCatalog (scrapedCatalog e))"
  by (auto simp: scraperRun_def init_def generateCatalog_def generateTypeDefinitions_def
      generateUsageGuide_def generateSearchUtility_def writeFile_def scrapedCatalog_def
      map_of_map_set case_prod_unfold Let_def split: if_splits sum.splits)

lemma scraperRun_types_file:
  "fst (scraperRun e) = 0
   \<Longrightarrow> map_of (snd (scraperRun e)) (outputDir e @ ''/types.ts'')
       = Some (Text (typesText (scrapedCatalog e)))"
  by (auto simp: scraperRun_def init_def generateCatalog_def generateTypeDefinitions_def
      generateUsageGuide_def generateSearchUtility_def writeFile_def scrapedCatalog_def
      map_of_map_set case_prod_unfold Let_def split: if_splits sum.splits)

lemma scraperRun_example: "fst (scraperRun exampleEnv) = 0"
  by (simp add: scraperRun_def init_def generateCatalog_def generateTypeDefinitions_def
      generateUsageGuide_def generateSearchUtility_def writeFile_def exampleEnv_def
      case_prod_unfold Let_def)

subsection \<open>The generated type definitions\<close>

lemma join_quoted_example:
  "join '' | '' (map quoted [''a'', ''b'', ''c''])
     = sq @ ''a'' @ sq @ '' | '' @ sq @ ''b'' @ sq @ '' | '' @ sq @ ''c'' @ sq"
  by (simp add: quoted_def)


section \<open>Properties of the catalog helper\<close>

lemma includes_str_occursIn: "includes_str s t = occursIn t s"
proof -
  have "includes_str s t = sublist t s"
    by (induction s) (auto simp: sublist_Cons_right)
  then show ?thesis by (simp add: sublist_def occursIn_def)
qed

lemma exitStatus_logs: "\<forall>ev \<in> set evs. \<exists>s. ev = ConsoleLog s \<Longrightarrow> exitStatus evs = 0"
  by (induction evs) auto

text \<open>
  C5. For every query and whatever the runtime's case tables, \<^verbatim>\<open>search\<close> selects,
  in catalog order, exactly the components for which the lowercased query is a substring
  of the lowercased name, description or category or of some lowercased variant. When
  nothing is selected it prints the no-components-found line and nothing else; otherwise
  it prints the count and, for each selected component, its five lines. Either way the
  run ends with status 0.
\<close>

theorem search_semantics:
  "let lowerQuery = toLowerCase rt query;
       selected =
         filter (\<lambda>comp. occursIn lowerQuery (toLowerCase rt (name comp))
                      \<or> occursIn lowerQuery (toLowerCase rt (description comp))
                      \<or> occursIn lowerQuery (toLowerCase rt (category comp))
                      \<or> (\<exists>variant \<in> set (variants comp).
                            occursIn lowerQuery (toLowerCase rt variant)))
           (map snd (components c))
   in searchResults rt c query = selected
      \<and> search rt (Some c) query =
          ReadCatalog #
          (if selected = [] then
             [ConsoleLog (emoji_search @ '' No components found for '' @ dq @ query @ dq)]
           else
             ConsoleLog (emoji_target @ '' Found '' @ showNat (length selected)
                         @ '' component(s) for '' @ dq @ query @ dq @ '':'' @ nl)
             # concat (map (\<lambda>comp.
                 [ConsoleLog (emoji_package @ '' '' @ name comp @ '' ('' @ category comp @ '')''),
                  ConsoleLog (''   '' @ description comp),
                  ConsoleLog (''   Install: '' @ cli (installation comp)),
                  ConsoleLog (''   Variants: '' @ join '', '' (variants comp)),
                  ConsoleLog (''   Docs: '' @ documentation comp @ nl)]) selected))
      \<and> exitStatus (search rt (Some c) query) = 0"
proof -
  have "matchesQuery rt (toLowerCase rt query) =
     (\<lambda>comp. occursIn (toLowerCase rt query) (toLowerCase rt (name comp))
                  \<or> occursIn (toLowerCase rt query) (toLowerCase rt (description comp))
                  \<or> occursIn (toLowerCase rt query) (toLowerCase rt (category comp))
                  \<or> (\<exists>variant \<in> set (variants comp).
                        occursIn (toLowerCase rt query) (toLowerCase rt variant)))"
    by (auto simp: fun_eq_iff matchesQuery_def includes_str_occursIn list_ex_iff)
  then have sel: "searchResults rt c query =
     filter (\<lambda>comp. occursIn (toLowerCase rt query) (toLowerCase rt (name comp))
                  \<or> occursIn (toLowerCase rt query) (toLowerCase rt (description comp))
                  \<or> occursIn (toLowerCase rt query) (toLowerCase rt (category comp))
                  \<or> (\<exists>variant \<in> set (variants comp).
                        occursIn (toLowerCase rt query) (toLowerCase rt variant)))
       (map snd (components c))"
    by (simp add: searchResults_def Let_def)
  have out: "search rt (Some c) query =
          ReadCatalog #
          (if searchResults rt c query = [] then
             [ConsoleLog (emoji_search @ '' No components found for '' @ dq @ query @ dq)]
           else
             ConsoleLog (emoji_target @ '' Found '' @ showNat (length (searchResults rt c query))
                         @ '' component(s) for '' @ dq @ query @ dq @ '':'' @ nl)
             # concat (map (\<lambda>comp.
                 [ConsoleLog (emoji_package @ '' '' @ name comp @ '' ('' @ category comp @ '')''),
                  ConsoleLog (''   '' @ description comp),
                  ConsoleLog (''   Install: '' @ cli (installation comp)),
                  ConsoleLog (''   Variants: '' @ join '', '' (variants comp)),
                  ConsoleLog (''   Docs: '' @ documentation comp @ nl)]) (searchResults rt c query)))"
    by (simp add: search_def loadCatalog_def Let_def)
  have status: "exitStatus (search rt (Some c) query) = 0"
    by (auto simp: search_def loadCatalog_def Let_def intro!: exitStatus_logs)
  from out status show ?thesis unfolding Let_def sel [symmetric] by simp
qed

text \<open>
  On the example catalog: \<open>BUT\<close> finds \<open>button\<close> (the query is lowercased),
  \<open>Invalid\<close> finds \<open>input\<close> through its variant \<open>invalid\<close>, and
  \<open>zzz-no-match\<close> finds nothing.
\<close>

lemma example_button:
  "fetchComponentInfo asciiRuntime now ''button'' =
     \<lparr> name = ''button'', description = ''Button component from Untitled UI'',
       category = ''buttons'',
       installation = \<lparr> cli = ''npx untitledui@latest add button'', manual = True \<rparr>,
       variants = [''primary'', ''secondary'', ''tertiary'', ''destructive'', ''link''],
       props = [(''color'', ''string''), (''size'', ''sm | md | lg | xl''),
                (''iconLeading'', ''ReactNode''), (''iconTrailing'', ''ReactNode''),
                (''isLoading'', ''boolean''), (''isDisabled'', ''boolean'')],
       examples = [], dependencies = [''react'', ''react-aria'', ''tailwindcss''],
       documentation = ''https://www.untitledui.com/react/components/button'',
       lastUpdated = now \<rparr>"
  by (simp add: fetchComponentInfo_def baseUrl_def capitalize_def firstUnitBytes_def
      asciiRuntime_def asciiUpperChar_def getCategoryForComponent_def COMPONENT_CATEGORIES_def
      char_of_def bit_Suc_0_iff)

lemma example_input:
  "fetchComponentInfo asciiRuntime now ''input'' =
     \<lparr> name = ''input'', description = ''Input component from Untitled UI'',
       category = ''inputs'',
       installation = \<lparr> cli = ''npx untitledui@latest add input'', manual = True \<rparr>,
       variants = [''default'', ''invalid'', ''disabled'', ''with-icon'', ''with-dropdown''],
       props = [(''size'', ''sm | md | lg''), (''isInvalid'', ''boolean''),
                (''isDisabled'', ''boolean''), (''iconLeading'', ''ReactNode''),
                (''iconTrailing'', ''ReactNode'')],
       examples = [], dependencies = [''react'', ''react-aria'', ''tailwindcss''],
       documentation = ''https://www.untitledui.com/react/components/input'',
       lastUpdated = now \<rparr>"
  by (simp add: fetchComponentInfo_def baseUrl_def capitalize_def firstUnitBytes_def
      asciiRuntime_def asciiUpperChar_def getCategoryForComponent_def COMPONENT_CATEGORIES_def
      char_of_def bit_Suc_0_iff)

lemma asciiRuntime_lower: "toLowerCase asciiRuntime s = map asciiLowerChar s"
  by (simp add: asciiRuntime_def)

lemma search_example:
  "searchResults asciiRuntime exampleCatalog ''BUT''
     = [fetchComponentInfo asciiRuntime ''2026-01-01T00:00:00.000Z'' ''button'']
   \<and> searchResults asciiRuntime exampleCatalog ''Invalid''
     = [fetchComponentInfo asciiRuntime ''2026-01-01T00:00:00.000Z'' ''input'']
   \<and> searchResults asciiRuntime exampleCatalog ''zzz-no-match'' = []"
  by (simp add: searchResults_def matchesQuery_def exampleCatalog_def example_button
      example_input asciiRuntime_lower asciiLowerChar_def char_of_def bit_Suc_0_iff Let_def)

theorem search_semantics_witness:
  "search asciiRuntime (Some exampleCatalog) ''BUT'' =
     [ReadCatalog,
      ConsoleLog (emoji_target @ '' Found 1 component(s) for '' @ dq @ ''BUT'' @ dq @ '':'' @ nl),
      ConsoleLog (emoji_package @ '' button (buttons)''),
      ConsoleLog ''   Button component from Untitled UI'',
      ConsoleLog ''   Install: npx untitledui@latest add button'',
      ConsoleLog ''   Variants: primary, secondary, tertiary, destructive, link'',
      ConsoleLog (''   Docs: https://www.untitledui.com/react/components/button'' @ nl)]
   \<and> search asciiRuntime (Some exampleCatalog) ''zzz-no-match'' =
     [ReadCatalog,
      ConsoleLog (emoji_search @ '' No components found for '' @ dq @ ''zzz-no-match'' @ dq)]"
proof -
  let ?button = "fetchComponentInfo asciiRuntime ''2026-01-01T00:00:00.000Z'' ''button''"
  note hit_sem = search_semantics [of asciiRuntime "''BUT''" exampleCatalog, unfolded Let_def]
  note miss_sem = search_semantics [of asciiRuntime "''zzz-no-match''" exampleCatalog, unfolded Let_def]
  have hit: "search asciiRuntime (Some exampleCatalog) ''BUT'' =
      ReadCatalog #
      (if [?button] = [] then
         [ConsoleLog (emoji_search @ '' No components found for '' @ dq @ ''BUT'' @ dq)]
       else
         ConsoleLog (emoji_target @ '' Found '' @ showNat (length [?button])
                     @ '' component(s) for '' @ dq @ ''BUT'' @ dq @ '':'' @ nl)
         # concat (map (\<lambda>comp.
             [ConsoleLog (emoji_package @ '' '' @ name comp @ '' ('' @ category comp @ '')''),
              ConsoleLog (''   '' @ description comp),
              ConsoleLog (''   Install: '' @ cli (installation comp)),
              ConsoleLog (''   Variants: '' @ join '', '' (variants comp)),
              ConsoleLog (''   Docs: '' @ documentation comp @ nl)]) [?button]))"
    using hit_sem [THEN conjunct2, THEN conjunct1]
    unfolding hit_sem [THEN conjunct1, symmetric] search_example [THEN conjunct1] .
  have one: "showNat (Suc 0) = ''1''"
    by (simp add: showNat.simps [of "Suc 0"] digit_def char_of_def bit_Suc_0_iff)
  have first: "search asciiRuntime (Some exampleCatalog) ''BUT'' =
     [ReadCatalog,
      ConsoleLog (emoji_target @ '' Found 1 component(s) for '' @ dq @ ''BUT'' @ dq @ '':'' @ nl),
      ConsoleLog (emoji_package @ '' button (buttons)''),
      ConsoleLog ''   Button component from Untitled UI'',
      ConsoleLog ''   Install: npx untitledui@latest add button'',
      ConsoleLog ''   Variants: primary, secondary, tertiary, destructive, link'',
      ConsoleLog (''   Docs: https://www.untitledui.com/react/components/button'' @ nl)]"
    unfolding hit by (simp add: example_button one)
  have second: "search asciiRuntime (Some exampleCatalog) ''zzz-no-match'' =
     [ReadCatalog,
      ConsoleLog (emoji_search @ '' No components found for '' @ dq @ ''zzz-no-match'' @ dq)]"
    using miss_sem [THEN conjunct2, THEN conjunct1]
    unfolding miss_sem [THEN conjunct1, symmetric]
      search_example [THEN conjunct2, THEN conjunct2]
    by simp
  from first second show ?thesis by (rule conjI)
qed

lemma asciiRuntime_upper: "toUpperCase asciiRuntime s = map asciiUpperChar s"
  by (simp add: asciiRuntime_def)

lemma list_example:
  "list_cmd asciiRuntime (Some exampleCatalog) (Some []) =
     [ReadCatalog,
      ConsoleLog (emoji_books @ '' All Categories (2 components):'' @ nl),
      ConsoleLog (emoji_folder @ '' BUTTONS (1 components)''),
      ConsoleLog (''  '' @ emoji_package @ '' button''),
      ConsoleLog [],
      ConsoleLog (emoji_folder @ '' INPUTS (1 components)''),
      ConsoleLog (''  '' @ emoji_package @ '' input''),
      ConsoleLog []]"
  by (simp add: list_cmd_def truthy_def loadCatalog_def listAll_def exampleCatalog_def
      example_button example_input asciiRuntime_upper asciiUpperChar_def char_of_def
      bit_Suc_0_iff showNat.simps [of 2] showNat.simps [of "Suc 0"] digit_def)





subsection \<open>Names that \<^verbatim>\<open>Object.prototype\<close> answers for\<close>

lemma scrapedCatalog_keys: "fst ` set (components (scrapedCatalog e)) = set allComponents"
  by (simp add: scrapedCatalog_def buildCatalog_def readClock_def scrapeAllComponents_def
      scrapeLoop_keys newScraper_def)

text \<open>
  C6. The helper is meant to end in failure only when the catalog cannot be loaded, an
  unknown component being reported as not found with status 0. With the catalog of a
  scraper run loaded, \<^verbatim>\<open>install constructor\<close> does not take the not-found branch:
  the lookup finds the inherited \<^verbatim>\<open>Object.prototype.constructor\<close>, the run prints
  the installing line, then fails on \<^verbatim>\<open>component.installation.cli\<close> with a
  \<^verbatim>\<open>TypeError\<close> that nothing catches, and the status is 1.
\<close>

theorem install_inherited_name:
  "run rt (Some (scrapedCatalog e)) [''install'', ''constructor'']
     = [ReadCatalog, ConsoleLog (emoji_rocket @ '' Installing constructor...''), UncaughtTypeError]
   \<and> exitStatus (run rt (Some (scrapedCatalog e)) [''install'', ''constructor'']) = 1"
proof -
  have "''constructor'' \<notin> set allComponents" by (simp add: allComponents_eq)
  then have "map_of (components (scrapedCatalog e)) ''constructor'' = None"
    by (simp add: map_of_eq_None_iff scrapedCatalog_keys)
  then have "getProperty (components (scrapedCatalog e)) ''constructor'' = Inherited (Some ''Object'')"
    by (simp add: getProperty_def objectPrototype_def)
  then show ?thesis
    by (simp add: run_def arg_def truthy_def install_def loadCatalog_def Let_def)
qed


subsection \<open>The exit status on every other path\<close>

text \<open>
  Apart from names that \<^verbatim>\<open>Object.prototype\<close> answers for, the status is 1 exactly
  when the catalog is needed and cannot be loaded: a missing or empty second argument of
  \<open>search\<close>, \<open>install\<close> and \<open>info\<close> prints the usage lines without reading the
  catalog, anything that is not a command prints the help, and with a loaded catalog
  every command ends with status 0.
\<close>

lemma arg_Cons_0: "arg (x # xs) 0 = Some x"
  by (simp add: arg_def)

lemma run_missing_argument:
  assumes "cmd = ''search'' \<or> cmd = ''install'' \<or> cmd = ''info''"
    and "\<not> truthy (arg (cmd # rest) 1)"
  shows "ReadCatalog \<notin> set (run rt disk (cmd # rest)) \<and> exitStatus (run rt disk (cmd # rest)) = 0"
  using assms by (elim disjE) (simp_all add: run_def arg_Cons_0 Let_def)

lemma run_help:
  "arg args 0 \<notin> {Some ''search'', Some ''list'', Some ''install'', Some ''info''}
   \<Longrightarrow> run rt disk args = showHelp \<and> exitStatus (run rt disk args) = 0"
  by (simp add: run_def Let_def showHelp_def)

lemma run_load_failure:
  "exitStatus (run rt None args) = (if ReadCatalog \<in> set (run rt None args) then 1 else 0)"
  by (auto simp: run_def Let_def showHelp_def loadCatalog_def search_def list_cmd_def
      install_def info_def)

lemma exitStatus_search: "exitStatus (search rt (Some c) q) = 0"
  by (auto simp: search_def loadCatalog_def Let_def intro!: exitStatus_logs)

lemma exitStatus_listAll: "exitStatus (listAll rt c) = 0"
  by (rule exitStatus_logs) (auto simp: listAll_def)

lemma exitStatus_map_logs: "exitStatus (map (\<lambda>x. ConsoleLog (f x)) xs) = 0"
  by (induction xs) auto

lemma exitStatus_list:
  "\<forall>a. cat = Some a \<longrightarrow> map_of (categories c) a \<noteq> None \<or> map_of objectPrototype a = None
   \<Longrightarrow> exitStatus (list_cmd rt (Some c) cat) = 0"
proof (cases "truthy cat")
  case False
  then show ?thesis by (simp add: list_cmd_def loadCatalog_def exitStatus_listAll)
next
  case True
  assume ok: "\<forall>a. cat = Some a \<longrightarrow> map_of (categories c) a \<noteq> None \<or> map_of objectPrototype a = None"
  from True obtain a where a: "cat = Some a" by (auto simp: truthy_def split: option.splits)
  have "exitStatus (listCategory rt c a) = 0"
    using ok a
    by (intro exitStatus_logs) (auto simp: listCategory_def getProperty_def split: option.splits)
  with True a show ?thesis by (simp add: list_cmd_def loadCatalog_def)
qed

lemma exitStatus_install:
  "map_of (components c) a \<noteq> None \<or> map_of objectPrototype a = None
   \<Longrightarrow> exitStatus (install (Some c) a) = 0"
  by (auto simp: install_def loadCatalog_def getProperty_def split: option.splits)

lemma exitStatus_info:
  "map_of (components c) a \<noteq> None \<or> map_of objectPrototype a = None
   \<Longrightarrow> exitStatus (info rt (Some c) a) = 0"
  by (auto simp: info_def loadCatalog_def getProperty_def exitStatus_map_logs
      case_prod_unfold split: option.splits intro!: exitStatus_logs)

lemma run_exit_status:
  assumes "\<forall>a. arg args 1 = Some a \<longrightarrow>
             map_of objectPrototype a = None
             \<or> (map_of (components c) a \<noteq> None \<and> map_of (categories c) a \<noteq> None)"
  shows "exitStatus (run rt (Some c) args) = 0"
proof -
  have hlp: "exitStatus showHelp = 0" by (simp add: showHelp_def)
  have usage: "\<And>x y. exitStatus [ConsoleLog x, ConsoleLog y] = 0" by simp
  show ?thesis
  proof (cases "truthy (arg args 1)")
    case False
    then show ?thesis
      using exitStatus_list [of "arg args 1" c] assms
      by (auto simp: run_def Let_def hlp truthy_def list_cmd_def loadCatalog_def exitStatus_listAll
          split: option.splits)
  next
    case True
    then obtain a where a: "arg args 1 = Some a" by (auto simp: truthy_def split: option.splits)
    with assms have ok: "map_of objectPrototype a = None
             \<or> (map_of (components c) a \<noteq> None \<and> map_of (categories c) a \<noteq> None)" by simp
    then have "exitStatus (install (Some c) a) = 0" "exitStatus (info rt (Some c) a) = 0"
      "exitStatus (list_cmd rt (Some c) (Some a)) = 0"
      using exitStatus_install [of c a] exitStatus_info [of c a] exitStatus_list [of "Some a" c]
      by auto
    with True a show ?thesis
      by (simp add: run_def Let_def hlp exitStatus_search)
  qed
qed

section \<open>Properties of the sitemap rules\<close>

text \<open>
  C9. In \<^verbatim>\<open>serialize\<close>, an item whose URL contains both \<open>/projects/\<close> and
  \<open>/blog/\<close> gets priority 0.9 and frequency \<open>weekly\<close>; an item whose URL is the site
  root gets priority 1.0 and frequency \<open>daily\<close>; and an item with the configured
  defaults whose URL is not the root and contains none of \<open>/projects/\<close>, \<open>/blog/\<close>,
  \<open>/about\<close>, \<open>/careers\<close>, \<open>/privacy\<close>, \<open>/terms\<close> is returned unchanged, with
  priority 0.7 and frequency \<open>weekly\<close>.
\<close>

theorem serialize_precedence:
  "(includes_str (url item) ''/projects/'' \<and> includes_str (url item) ''/blog/''
      \<longrightarrow> priority (serialize item) = 0.9 \<and> changefreq (serialize item) = ''weekly'')
   \<and> (url item = ''https://nextworkmarketing.com/''
      \<longrightarrow> priority (serialize item) = 1.0 \<and> changefreq (serialize item) = ''daily'')
   \<and> (\<not> includes_str u ''/projects/'' \<and> \<not> includes_str u ''/blog/''
       \<and> \<not> includes_str u ''/about'' \<and> \<not> includes_str u ''/careers''
       \<and> \<not> includes_str u ''/privacy'' \<and> \<not> includes_str u ''/terms''
       \<and> u \<noteq> ''https://nextworkmarketing.com/''
      \<longrightarrow> serialize (defaultItem u) = defaultItem u
          \<and> priority (serialize (defaultItem u)) = 0.7
          \<and> changefreq (serialize (defaultItem u)) = ''weekly'')"
  by (simp add: serialize_def defaultItem_def)

theorem serialize_precedence_witness:
  "includes_str ''https://nextworkmarketing.com/projects/blog/post'' ''/projects/''
   \<and> includes_str ''https://nextworkmarketing.com/projects/blog/post'' ''/blog/''
   \<and> priority (serialize (defaultItem ''https://nextworkmarketing.com/projects/blog/post'')) = 0.9
   \<and> changefreq (serialize (defaultItem ''https://nextworkmarketing.com/projects/blog/post'')) = ''weekly''
   \<and> priority (serialize (defaultItem ''https://nextworkmarketing.com/'')) = 1.0
   \<and> changefreq (serialize (defaultItem ''https://nextworkmarketing.com/'')) = ''daily''
   \<and> priority (serialize (defaultItem ''https://nextworkmarketing.com/demo'')) = 0.7
   \<and> changefreq (serialize (defaultItem ''https://nextworkmarketing.com/demo'')) = ''weekly''"
proof -
  have p: "includes_str ''https://nextworkmarketing.com/projects/blog/post'' ''/projects/''"
    by simp
  have b: "includes_str ''https://nextworkmarketing.com/projects/blog/post'' ''/blog/''"
    by simp
  have u1: "url (defaultItem ''https://nextworkmarketing.com/projects/blog/post'')
      = ''https://nextworkmarketing.com/projects/blog/post''"
    by (simp add: defaultItem_def)
  have u2: "url (defaultItem ''https://nextworkmarketing.com/'') = ''https://nextworkmarketing.com/''"
    by (simp add: defaultItem_def)
  have none: "\<not> includes_str ''https://nextworkmarketing.com/demo'' ''/projects/''
       \<and> \<not> includes_str ''https://nextworkmarketing.com/demo'' ''/blog/''
       \<and> \<not> includes_str ''https://nextworkmarketing.com/demo'' ''/about''
       \<and> \<not> includes_str ''https://nextworkmarketing.com/demo'' ''/careers''
       \<and> \<not> includes_str ''https://nextworkmarketing.com/demo'' ''/privacy''
       \<and> \<not> includes_str ''https://nextworkmarketing.com/demo'' ''/terms''
       \<and> ''https://nextworkmarketing.com/demo'' \<noteq> ''https://nextworkmarketing.com/''"
    by simp
  from serialize_precedence [of "defaultItem ''https://nextworkmarketing.com/projects/blog/post''"] p b u1
  have first: "priority (serialize (defaultItem ''https://nextworkmarketing.com/projects/blog/post'')) = 0.9
   \<and> changefreq (serialize (defaultItem ''https://nextworkmarketing.com/projects/blog/post'')) = ''weekly''"
    by simp
  from serialize_precedence [of "defaultItem ''https://nextworkmarketing.com/''"] u2
  have second: "priority (serialize (defaultItem ''https://nextworkmarketing.com/'')) = 1.0
   \<and> changefreq (serialize (defaultItem ''https://nextworkmarketing.com/'')) = ''daily''"
    by simp
  from serialize_precedence [of _ "''https://nextworkmarketing.com/demo''"] none
  have third: "priority (serialize (defaultItem ''https://nextworkmarketing.com/demo'')) = 0.7
   \<and> changefreq (serialize (defaultItem ''https://nextworkmarketing.com/demo'')) = ''weekly''"
    by blast
  from p b first second third show ?thesis by simp
qed

end
